theory Spec2Isabelle
  imports Main
begin

section \<open>Python values, errors and differences\<close>

text \<open>
  The objects that \<^verbatim>\<open>datatest/validate.py\<close> compares. \<open>NOTFOUND\<close> is the sentinel
  imported from \<^verbatim>\<open>errors\<close>; \<open>PNaN\<close> is one float NaN object; \<open>PBad m\<close> is an instance of a
  class whose \<^verbatim>\<open>__eq__\<close> raises \<^verbatim>\<open>Exception(m)\<close> and which defines no \<^verbatim>\<open>__hash__\<close>
  (the \<^verbatim>\<open>BadClass\<close> of the tests). A \<open>PSet\<close> lists the members of a set in the order in
  which the set is iterated, a \<open>PDict\<close> lists the items of a dict.
\<close>

datatype pyval =
    NOTFOUND
  | PNone
  | PBool bool
  | PInt int
  | PNaN
  | PStr string
  | PList "pyval list"
  | PSet "pyval list"
  | PDict "(pyval \<times> pyval) list"
  | PBad string

text \<open>Exceptions that are raised (all of them subclasses of \<^verbatim>\<open>Exception\<close>).\<close>

datatype error =
    TypeError string
  | ValueError string
  | NameError string
  | Exception string

text \<open>
  The four difference classes of \<^verbatim>\<open>errors\<close>; \<open>Invalid x None\<close> is \<^verbatim>\<open>Invalid(x)\<close>,
  built without the expected value.
\<close>

datatype difference =
    Missing pyval
  | Extra pyval
  | Invalid pyval "pyval option"
  | Deviation pyval pyval

text \<open>
  What a generator does when it is advanced: it yields a value and goes on, it is
  exhausted, or it raises. Nothing of the tail is run before the head is consumed.
\<close>

datatype 'a gen = Stop | Yield 'a "'a gen" | Raise error

fun gen_of_list :: "'a list \<Rightarrow> 'a gen" where
  "gen_of_list [] = Stop"
| "gen_of_list (x # xs) = Yield x (gen_of_list xs)"

text \<open>\<^verbatim>\<open>list(g)\<close>: runs the generator to its end; an exception on the way propagates.\<close>

fun list_of_gen :: "'a gen \<Rightarrow> error + 'a list" where
  "list_of_gen Stop = Inr []"
| "list_of_gen (Raise e) = Inl e"
| "list_of_gen (Yield x g) =
     (case list_of_gen g of Inl e \<Rightarrow> Inl e | Inr xs \<Rightarrow> Inr (x # xs))"

text \<open>The values yielded before the generator stops or raises, and the exception if any.\<close>

fun gen_items :: "'a gen \<Rightarrow> 'a list" where
  "gen_items Stop = []"
| "gen_items (Raise e) = []"
| "gen_items (Yield x g) = x # gen_items g"

fun gen_error :: "'a gen \<Rightarrow> error option" where
  "gen_error Stop = None"
| "gen_error (Raise e) = Some e"
| "gen_error (Yield x g) = gen_error g"

subsection \<open>Hashing and set membership\<close>

text \<open>
  Lists, sets, dicts and objects that define \<^verbatim>\<open>__eq__\<close> without \<^verbatim>\<open>__hash__\<close> are
  unhashable. Two hashable values are the same member of a set when they are equal, and
  \<^verbatim>\<open>True == 1\<close>, \<^verbatim>\<open>False == 0\<close>: \<open>hkey\<close> maps a value to the representative of its class.
\<close>

fun hashable :: "pyval \<Rightarrow> bool" where
  "hashable (PList xs) = False"
| "hashable (PSet xs) = False"
| "hashable (PDict kvs) = False"
| "hashable (PBad m) = False"
| "hashable v = True"

fun hkey :: "pyval \<Rightarrow> pyval" where
  "hkey (PBool b) = PInt (if b then 1 else 0)"
| "hkey v = v"

text \<open>\<^verbatim>\<open>x in s\<close> for a set \<open>s\<close>: raises \<^verbatim>\<open>TypeError\<close> when \<open>x\<close> cannot be hashed.\<close>

definition set_contains :: "pyval list \<Rightarrow> pyval \<Rightarrow> error + bool" where
  "set_contains s x =
     (if hashable x then Inr (hkey x \<in> hkey ` set s)
      else Inl (TypeError ''unhashable type''))"

text \<open>\<^verbatim>\<open>s.add(x)\<close> for a hashable \<open>x\<close>: a member equal to \<open>x\<close> stays as it is.\<close>

definition set_add :: "pyval list \<Rightarrow> pyval \<Rightarrow> pyval list" where
  "set_add s x = (if hkey x \<in> hkey ` set s then s else s @ [x])"

subsection \<open>Equality\<close>

text \<open>
  The operator \<^verbatim>\<open>==\<close>. Comparing with a \<open>PBad\<close> object raises, whichever side it is on
  (the other side's \<^verbatim>\<open>__eq__\<close> returns \<^verbatim>\<open>NotImplemented\<close> and the reflected method
  runs). NaN equals nothing. Inside a list or a dict the items are compared as the
  interpreter does: the same object is equal to itself without \<^verbatim>\<open>__eq__\<close> being
  called.
\<close>

fun num_of :: "pyval \<Rightarrow> int option" where
  "num_of (PBool b) = Some (if b then 1 else 0)"
| "num_of (PInt i) = Some i"
| "num_of v = None"

fun same_object :: "pyval \<Rightarrow> pyval \<Rightarrow> bool" where
  "same_object PNaN PNaN = True"
| "same_object (PBad m) (PBad n) = (m = n)"
| "same_object x y = False"

fun dict_get :: "(pyval \<times> 'v) list \<Rightarrow> pyval \<Rightarrow> 'v option" where
  "dict_get [] k = None"
| "dict_get ((k', v) # kvs) k = (if hkey k' = hkey k then Some v else dict_get kvs k)"

fun py_eq :: "pyval \<Rightarrow> pyval \<Rightarrow> error + bool"
  and items_eq :: "pyval list \<Rightarrow> pyval list \<Rightarrow> error + bool"
  and dict_eq :: "(pyval \<times> pyval) list \<Rightarrow> (pyval \<times> pyval) list \<Rightarrow> error + bool"
where
  "py_eq x y =
     (case x of
        PBad m \<Rightarrow> Inl (Exception m)
      | NOTFOUND \<Rightarrow> (case y of PBad m \<Rightarrow> Inl (Exception m) | NOTFOUND \<Rightarrow> Inr True | _ \<Rightarrow> Inr False)
      | PNone \<Rightarrow> (case y of PBad m \<Rightarrow> Inl (Exception m) | PNone \<Rightarrow> Inr True | _ \<Rightarrow> Inr False)
      | PBool b \<Rightarrow> (case y of PBad m \<Rightarrow> Inl (Exception m) | _ \<Rightarrow> Inr (num_of y = num_of x))
      | PInt i \<Rightarrow> (case y of PBad m \<Rightarrow> Inl (Exception m) | _ \<Rightarrow> Inr (num_of y = num_of x))
      | PNaN \<Rightarrow> (case y of PBad m \<Rightarrow> Inl (Exception m) | _ \<Rightarrow> Inr False)
      | PStr s \<Rightarrow> (case y of PBad m \<Rightarrow> Inl (Exception m) | PStr t \<Rightarrow> Inr (s = t) | _ \<Rightarrow> Inr False)
      | PList xs \<Rightarrow>
          (case y of PBad m \<Rightarrow> Inl (Exception m)
           | PList ys \<Rightarrow> (if length xs \<noteq> length ys then Inr False else items_eq xs ys)
           | _ \<Rightarrow> Inr False)
      | PSet xs \<Rightarrow>
          (case y of PBad m \<Rightarrow> Inl (Exception m)
           | PSet ys \<Rightarrow> Inr (hkey ` set xs = hkey ` set ys)
           | _ \<Rightarrow> Inr False)
      | PDict xs \<Rightarrow>
          (case y of PBad m \<Rightarrow> Inl (Exception m)
           | PDict ys \<Rightarrow> (if length xs \<noteq> length ys then Inr False else dict_eq xs ys)
           | _ \<Rightarrow> Inr False))"
| "items_eq (x # xs) (y # ys) =
     (if same_object x y then items_eq xs ys
      else (case py_eq x y of
              Inl e \<Rightarrow> Inl e
            | Inr eq \<Rightarrow> (if eq then items_eq xs ys else Inr False)))"
| "items_eq xs ys = Inr True"
| "dict_eq [] ys = Inr True"
| "dict_eq ((k, v) # xs) ys =
     (case dict_get ys k of
        None \<Rightarrow> Inr False
      | Some w \<Rightarrow>
          (if same_object v w then dict_eq xs ys
           else (case py_eq v w of
                   Inl e \<Rightarrow> Inl e
                 | Inr eq \<Rightarrow> (if eq then dict_eq xs ys else Inr False))))"

text \<open>The operator \<^verbatim>\<open>!=\<close>: the negation of \<^verbatim>\<open>==\<close>, raising when that raises.\<close>

definition py_ne :: "pyval \<Rightarrow> pyval \<Rightarrow> error + bool" where
  "py_ne x y = (case py_eq x y of Inl e \<Rightarrow> Inl e | Inr b \<Rightarrow> Inr (\<not> b))"

text \<open>Sequencing of steps that may raise.\<close>

definition ebind :: "error + 'a \<Rightarrow> ('a \<Rightarrow> error + 'b) \<Rightarrow> error + 'b" where
  "ebind m f = (case m of Inl e \<Rightarrow> Inl e | Inr x \<Rightarrow> f x)"

subsection \<open>Kinds of objects and iteration\<close>

fun is_str :: "pyval \<Rightarrow> bool" where
  "is_str (PStr s) = True"
| "is_str v = False"

text \<open>\<^verbatim>\<open>isinstance(v, collections.Sequence)\<close>, \<^verbatim>\<open>collections.Set\<close> and \<^verbatim>\<open>collections.Mapping\<close>.\<close>

fun is_Sequence :: "pyval \<Rightarrow> bool" where
  "is_Sequence (PStr s) = True"
| "is_Sequence (PList xs) = True"
| "is_Sequence v = False"

fun is_Set :: "pyval \<Rightarrow> bool" where
  "is_Set (PSet xs) = True"
| "is_Set v = False"

fun is_Mapping :: "pyval \<Rightarrow> bool" where
  "is_Mapping (PDict kvs) = True"
| "is_Mapping v = False"

text \<open>
  Modelled from the spec: \<^verbatim>\<open>utils.misc._is_nsiterable\<close>, which is not among the sources;
  the spec describes it as the test "is this iterable-but-not-string".
\<close>

fun is_nsiterable :: "pyval \<Rightarrow> bool" where
  "is_nsiterable (PList xs) = True"
| "is_nsiterable (PSet xs) = True"
| "is_nsiterable (PDict kvs) = True"
| "is_nsiterable v = False"

text \<open>
  \<^verbatim>\<open>for element in v\<close>: the elements in order (the characters of a string, the keys of
  a dict); \<^verbatim>\<open>TypeError\<close> when \<open>v\<close> is not iterable.
\<close>

fun py_iter :: "pyval \<Rightarrow> error + pyval list" where
  "py_iter (PStr s) = Inr (map (\<lambda>c. PStr [c]) s)"
| "py_iter (PList xs) = Inr xs"
| "py_iter (PSet xs) = Inr xs"
| "py_iter (PDict kvs) = Inr (map fst kvs)"
| "py_iter v = Inl (TypeError ''object is not iterable'')"

section \<open>The comparison functions of \<^verbatim>\<open>validate.py\<close>\<close>

text \<open>
  What \<^verbatim>\<open>_do_comparison\<close> returns: \<^verbatim>\<open>None\<close>, one difference, an iterator of differences
  that has not been run yet, or the \<^verbatim>\<open>AssertionError\<close> object that \<^verbatim>\<open>_compare_sequence\<close>
  builds and returns (it is returned, not raised). \<^verbatim>\<open>_compare_mapping\<close> turns an iterator
  into a list with \<^verbatim>\<open>list(result)\<close>: that is \<open>Materialized\<close>.
\<close>

datatype report =
    NoDifference
  | Single difference
  | Lazy "difference gen"
  | AssertionError string
  | Materialized "difference list"

subsection \<open>\<^verbatim>\<open>_compare_sequence\<close>\<close>

text \<open>\<^verbatim>\<open>'{0}'.format(index)\<close> for an index: its decimal digits.\<close>

definition digit_char :: "nat \<Rightarrow> char" where
  "digit_char n = ''0123456789'' ! n"

function str_nat :: "nat \<Rightarrow> string" where
  "str_nat n = (if n < 10 then [digit_char n] else str_nat (n div 10) @ [digit_char (n mod 10)])"
  by pat_completeness auto
termination
  by (relation "measure id") auto

declare str_nat.simps [simp del]

text \<open>\<^verbatim>\<open>sep.join(parts)\<close>.\<close>

fun join :: "string \<Rightarrow> string list \<Rightarrow> string" where
  "join sep [] = []"
| "join sep [p] = p"
| "join sep (p # q # ps) = p @ sep @ join sep (q # ps)"

text \<open>\<^verbatim>\<open>itertools.zip_longest(data, sequence, fillvalue=NOTFOUND)\<close>.\<close>

fun zip_longest :: "pyval list \<Rightarrow> pyval list \<Rightarrow> (pyval \<times> pyval) list" where
  "zip_longest [] [] = []"
| "zip_longest (x # xs) [] = (x, NOTFOUND) # zip_longest xs []"
| "zip_longest [] (y # ys) = (NOTFOUND, y) # zip_longest [] ys"
| "zip_longest (x # xs) (y # ys) = (x, y) # zip_longest xs ys"

text \<open>
  The \<^verbatim>\<open>for\<close> loop of lines 34 to 54: it leaves at the first pair that is not equal, with
  the index, the last element that matched, the pair and what is left of \<^verbatim>\<open>zipped\<close>;
  \<open>None\<close> is the \<^verbatim>\<open>else\<close> branch of the loop. An exception of \<^verbatim>\<open>==\<close> propagates.
\<close>

fun first_difference ::
  "nat \<Rightarrow> pyval \<Rightarrow> (pyval \<times> pyval) list \<Rightarrow>
   error + (nat \<times> pyval \<times> pyval \<times> pyval \<times> (pyval \<times> pyval) list) option" where
  "first_difference index previous_element [] = Inr None"
| "first_difference index previous_element ((actual, expected) # zipped) =
     (case py_eq actual expected of
        Inl e \<Rightarrow> Inl e
      | Inr eq \<Rightarrow>
          (if eq then first_difference (Suc index) actual zipped
           else Inr (Some (index, previous_element, actual, expected, zipped))))"

text \<open>
  Lines 39 to 51: the first and the last line of the message. The second test is only
  made when the first one fails.
\<close>

definition message_prefix_suffix ::
  "(pyval \<Rightarrow> string) \<Rightarrow> nat \<Rightarrow> pyval \<Rightarrow> pyval \<Rightarrow> error + string \<times> string" where
  "message_prefix_suffix repr index actual expected =
     ebind (py_eq actual NOTFOUND) (\<lambda>actual_notfound.
       if actual_notfound then
         Inr (''Data sequence is missing elements starting with index '' @ str_nat index,
              ''Expected '' @ repr expected)
       else
         ebind (py_eq expected NOTFOUND) (\<lambda>expected_notfound.
           if expected_notfound then
             Inr (''Data sequence contains extra elements starting with index '' @ str_nat index,
                  ''Found '' @ repr actual)
           else
             Inr (''Data sequence differs starting at index '' @ str_nat index,
                  ''Found '' @ repr actual @ '', expected '' @ repr expected)))"

text \<open>Lines 56 to 90: the message, with the element before and the element after.\<close>

definition sequence_message ::
  "(pyval \<Rightarrow> string) \<Rightarrow> nat \<Rightarrow> pyval \<Rightarrow> pyval \<Rightarrow> pyval \<Rightarrow> (pyval \<times> pyval) list \<Rightarrow>
   error + string" where
  "sequence_message repr index previous_element actual expected zipped =
     ebind (message_prefix_suffix repr index actual expected) (\<lambda>(message_prefix, message_suffix).
     ebind (py_ne previous_element NOTFOUND) (\<lambda>has_previous.
     ebind (py_ne actual NOTFOUND) (\<lambda>has_actual.
       let leading_elements =
             (if index > 1 then [''...''] else []) @
             (if has_previous then [repr previous_element] else []);
           actual_repr = (if has_actual then repr actual else ''?????'');
           caret_underline = replicate (length actual_repr) (CHR ''^'');
           trailing_elements =
             (case zipped of
                [] \<Rightarrow> []
              | next_tuple # rest \<Rightarrow>
                  repr (fst next_tuple) # (case rest of [] \<Rightarrow> [] | t # ts \<Rightarrow> [''...'']));
           leading_string =
             (if leading_elements \<noteq> [] then join '', '' leading_elements @ '', '' else []);
           leading_whitespace = replicate (length leading_string) (CHR '' '');
           trailing_string =
             (if trailing_elements \<noteq> [] then '', '' @ join '', '' trailing_elements else []);
           sequence_string = leading_string @ actual_repr @ trailing_string
       in Inr (message_prefix @ '':'' @ [CHR 0x0A, CHR 0x0A] @ ''  '' @ sequence_string @
               [CHR 0x0A] @ ''  '' @ leading_whitespace @ caret_underline @
               [CHR 0x0A] @ message_suffix))))"

text \<open>
  \<^verbatim>\<open>_compare_sequence(data, sequence)\<close>. \<open>sequence\<close> is the list of the elements of the
  requirement. \<open>repr\<close> and \<open>type_name\<close> stand for the interpreter's \<^verbatim>\<open>repr(x)\<close> and
  \<^verbatim>\<open>type(x).__name__\<close>.
\<close>

definition compare_sequence ::
  "(pyval \<Rightarrow> string) \<Rightarrow> (pyval \<Rightarrow> string) \<Rightarrow> pyval \<Rightarrow> pyval list \<Rightarrow> error + report" where
  "compare_sequence repr type_name data sequence =
     (if is_str data then
        Inl (ValueError ''uncomparable types: 'str' and sequence type'')
      else if \<not> is_Sequence data then
        Inl (ValueError (''expected sequence type, but got '' @ repr (PStr (type_name data))))
      else
        ebind (py_iter data) (\<lambda>elements.
        ebind (first_difference 0 NOTFOUND (zip_longest elements sequence)) (\<lambda>found.
          case found of
            None \<Rightarrow> Inr NoDifference
          | Some (index, previous_element, actual, expected, zipped) \<Rightarrow>
              ebind (sequence_message repr index previous_element actual expected zipped)
                (\<lambda>message. Inr (AssertionError message)))))"

subsection \<open>\<^verbatim>\<open>_compare_set\<close>\<close>

text \<open>Lines 95 to 98: what the loop iterates over.\<close>

definition set_elements :: "pyval \<Rightarrow> error + pyval list" where
  "set_elements data =
     (if data = NOTFOUND then Inr []
      else if \<not> is_nsiterable data then Inr [data]
      else py_iter data)"

text \<open>Lines 100 to 106: the loop that fills \<^verbatim>\<open>matching_elements\<close> and \<^verbatim>\<open>extra_elements\<close>.\<close>

fun set_loop ::
  "pyval list \<Rightarrow> pyval list \<Rightarrow> pyval list \<Rightarrow> pyval list \<Rightarrow> error + pyval list \<times> pyval list" where
  "set_loop requirement_set matching_elements extra_elements [] =
     Inr (matching_elements, extra_elements)"
| "set_loop requirement_set matching_elements extra_elements (element # rest) =
     (case set_contains requirement_set element of
        Inl e \<Rightarrow> Inl e
      | Inr found \<Rightarrow>
          (if found
           then set_loop requirement_set (set_add matching_elements element) extra_elements rest
           else set_loop requirement_set matching_elements (set_add extra_elements element) rest))"

text \<open>\<^verbatim>\<open>requirement_set.difference(matching_elements)\<close>.\<close>

definition set_difference :: "pyval list \<Rightarrow> pyval list \<Rightarrow> pyval list" where
  "set_difference s t = filter (\<lambda>x. hkey x \<notin> hkey ` set t) s"

text \<open>
  \<^verbatim>\<open>_compare_set(data, requirement_set)\<close>: the loop runs when the function is called;
  the iterator it returns chains the two generator expressions.
\<close>

definition compare_set :: "pyval \<Rightarrow> pyval list \<Rightarrow> error + difference gen" where
  "compare_set data requirement_set =
     ebind (set_elements data) (\<lambda>elements.
     ebind (set_loop requirement_set [] [] elements) (\<lambda>(matching_elements, extra_elements).
       let missing_elements = set_difference requirement_set matching_elements
       in Inr (gen_of_list (map Missing missing_elements @ map Extra extra_elements))))"

subsection \<open>\<^verbatim>\<open>_compare_callable\<close>, \<^verbatim>\<open>_compare_regex\<close>, \<^verbatim>\<open>_compare_other\<close>\<close>

text \<open>
  A call of the predicate returns an object or raises. The object is a plain value or an
  instance of \<^verbatim>\<open>DataError\<close>, the class of the differences. The predicate itself is given by
  its \<^verbatim>\<open>__name__\<close> and by what a call with a list of positional arguments does.
\<close>

datatype retval = RetVal pyval | RetDiff difference

datatype call_result = Returns retval | Raises error

text \<open>Lines 116 to 119, and again 146 to 149.\<close>

definition elements_or_none :: "pyval \<Rightarrow> error + pyval list" where
  "elements_or_none data =
     (if data = NOTFOUND then Inr [PNone]
      else if \<not> is_nsiterable data then Inr [data]
      else py_iter data)"

text \<open>Lines 123 to 126: \<^verbatim>\<open>function(*element)\<close> or \<^verbatim>\<open>function(element)\<close>.\<close>

definition call_with :: "(pyval list \<Rightarrow> call_result) \<Rightarrow> pyval \<Rightarrow> call_result" where
  "call_with function element =
     (if is_nsiterable element
      then (case py_iter element of Inl e \<Rightarrow> Raises e | Inr args \<Rightarrow> function args)
      else function [element])"

fun callable_loop ::
  "(pyval \<Rightarrow> string) \<Rightarrow> string \<Rightarrow> (pyval list \<Rightarrow> call_result) \<Rightarrow> pyval list \<Rightarrow> difference gen" where
  "callable_loop repr callable_name function [] = Stop"
| "callable_loop repr callable_name function (element # rest) =
     (let returned_value =
            (case call_with function element of
               Raises e \<Rightarrow> RetVal (PBool False)
             | Returns r \<Rightarrow> r)
      in case returned_value of
           RetVal (PBool True) \<Rightarrow> callable_loop repr callable_name function rest
         | RetVal (PBool False) \<Rightarrow>
             Yield (Invalid element None) (callable_loop repr callable_name function rest)
         | RetDiff d \<Rightarrow> Yield d (callable_loop repr callable_name function rest)
         | RetVal v \<Rightarrow>
             Raise (TypeError (repr (PStr callable_name) @ '' returned '' @ repr v @
                               '', should return True, False or DataError'')))"

definition compare_callable ::
  "(pyval \<Rightarrow> string) \<Rightarrow> pyval \<Rightarrow> string \<Rightarrow> (pyval list \<Rightarrow> call_result) \<Rightarrow> difference gen" where
  "compare_callable repr data callable_name function =
     (case elements_or_none data of
        Inl e \<Rightarrow> Raise e
      | Inr elements \<Rightarrow> callable_loop repr callable_name function elements)"

text \<open>
  A compiled pattern is given by the texts in which its \<^verbatim>\<open>search\<close> finds a match.
  \<^verbatim>\<open>regex.search(element)\<close> raises \<^verbatim>\<open>TypeError\<close> when the element is not a string.
\<close>

definition regex_search :: "(string \<Rightarrow> bool) \<Rightarrow> pyval \<Rightarrow> error + bool" where
  "regex_search regex element =
     (case element of
        PStr s \<Rightarrow> Inr (regex s)
      | _ \<Rightarrow> Inl (TypeError ''expected string or bytes-like object''))"

fun regex_loop :: "(string \<Rightarrow> bool) \<Rightarrow> pyval list \<Rightarrow> difference gen" where
  "regex_loop regex [] = Stop"
| "regex_loop regex (element # rest) =
     (case regex_search regex element of
        Inr found \<Rightarrow>
          (if found then regex_loop regex rest
           else Yield (Invalid element None) (regex_loop regex rest))
      | Inl (TypeError m) \<Rightarrow> Yield (Invalid element None) (regex_loop regex rest)
      | Inl e \<Rightarrow> Raise e)"

definition compare_regex :: "pyval \<Rightarrow> (string \<Rightarrow> bool) \<Rightarrow> difference gen" where
  "compare_regex data regex =
     (case elements_or_none data of
        Inl e \<Rightarrow> Raise e
      | Inr elements \<Rightarrow> regex_loop regex elements)"

text \<open>
  \<^verbatim>\<open>_compare_other\<close>. \<open>get_error\<close> stands for \<^verbatim>\<open>errors._get_error\<close>, which is not among the
  sources: it is called as \<^verbatim>\<open>_get_error(element, other, omit_expected=True)\<close> and builds
  the difference of two objects that differ. Every exception modelled here is caught by
  \<^verbatim>\<open>except Exception\<close>.
\<close>

fun other_loop ::
  "(pyval \<Rightarrow> pyval \<Rightarrow> bool \<Rightarrow> difference) \<Rightarrow> pyval \<Rightarrow> pyval list \<Rightarrow> difference gen" where
  "other_loop get_error other [] = Stop"
| "other_loop get_error other (element # rest) =
     (case py_ne element other of
        Inr ne \<Rightarrow>
          (if ne then Yield (get_error element other True) (other_loop get_error other rest)
           else other_loop get_error other rest)
      | Inl e \<Rightarrow> Yield (get_error element other True) (other_loop get_error other rest))"

definition compare_other ::
  "(pyval \<Rightarrow> pyval \<Rightarrow> bool \<Rightarrow> difference) \<Rightarrow> pyval \<Rightarrow> pyval \<Rightarrow> difference gen" where
  "compare_other get_error data other =
     (case py_iter data of
        Inl e \<Rightarrow> Raise e
      | Inr elements \<Rightarrow> other_loop get_error other elements)"

subsection \<open>\<^verbatim>\<open>_do_comparison\<close>\<close>

text \<open>
  A requirement is an object of the kinds above, a callable or a compiled pattern. The
  interpreter and \<^verbatim>\<open>errors\<close> supply \<^verbatim>\<open>repr\<close>, \<^verbatim>\<open>type(x).__name__\<close> and \<^verbatim>\<open>_get_error\<close>.
\<close>

datatype requirement =
    Value pyval
  | Callable string "pyval list \<Rightarrow> call_result"
  | Regex "string \<Rightarrow> bool"

record runtime =
  rt_repr :: "pyval \<Rightarrow> string"
  rt_type_name :: "pyval \<Rightarrow> string"
  rt_get_error :: "pyval \<Rightarrow> pyval \<Rightarrow> bool \<Rightarrow> difference"

text \<open>
  Lines 188 to 191 and 205 to 210: \<^verbatim>\<open>next(result, None)\<close> runs the iterator up to its
  first value. A difference object is true in a condition.
\<close>

definition first_or_none :: "bool \<Rightarrow> difference gen \<Rightarrow> error + report" where
  "first_or_none is_single_element result =
     (case result of
        Raise e \<Rightarrow> Inl e
      | Stop \<Rightarrow> Inr NoDifference
      | Yield first_element rest \<Rightarrow>
          (if is_single_element then Inr (Single first_element)
           else Inr (Lazy (Yield first_element rest))))"

definition do_comparison :: "runtime \<Rightarrow> pyval \<Rightarrow> requirement \<Rightarrow> error + report" where
  "do_comparison rt data requirement =
     (case requirement of
        Value (PList sequence) \<Rightarrow> compare_sequence (rt_repr rt) (rt_type_name rt) data sequence
      | Value (PSet requirement_set) \<Rightarrow>
          ebind (compare_set data requirement_set) (first_or_none False)
      | _ \<Rightarrow>
          (let is_single_element = (\<not> is_nsiterable data \<or> is_Mapping data);
               data1 = (if is_single_element then PList [data] else data);
               result =
                 (case requirement of
                    Callable callable_name function \<Rightarrow>
                      compare_callable (rt_repr rt) data1 callable_name function
                  | Regex regex \<Rightarrow> compare_regex data1 regex
                  | Value other \<Rightarrow> compare_other (rt_get_error rt) data1 other)
           in first_or_none is_single_element result))"

subsection \<open>\<^verbatim>\<open>_compare_mapping\<close> and \<^verbatim>\<open>_do_mapping_comparison\<close>\<close>

text \<open>
  The names that \<^verbatim>\<open>validate.py\<close> binds at module level: what it imports (lines 2 to 13)
  and what it defines. A name that is neither here nor a builtin raises \<^verbatim>\<open>NameError\<close>
  when the line that mentions it is run.
\<close>

definition validate_globals :: "string list" where
  "validate_globals =
     [''re'', ''itertools'', ''collections'', ''callable'', ''_is_nsiterable'',
      ''DataError'', ''Extra'', ''Missing'', ''Invalid'', ''Deviation'', ''_get_error'',
      ''NOTFOUND'', ''_regex_type'', ''_compare_sequence'', ''_compare_set'',
      ''_compare_callable'', ''_compare_regex'', ''_compare_other'', ''_do_comparison'',
      ''_compare_mapping'', ''_do_mapping_comparison'']"

definition load_global :: "string \<Rightarrow> 'a \<Rightarrow> error + 'a" where
  "load_global name v =
     (if name \<in> set validate_globals then Inr v
      else Inl (NameError (''name '' @ [CHR 0x27] @ name @ [CHR 0x27] @ '' is not defined'')))"

text \<open>
  Modelled from the spec: \<^verbatim>\<open>_is_collection_of_items\<close>, which no source file defines; the
  spec calls it the test for "an iterable of key-value pairs".
\<close>

fun is_item :: "pyval \<Rightarrow> bool" where
  "is_item (PList [k, v]) = True"
| "is_item x = False"

definition is_collection_of_items :: "pyval \<Rightarrow> bool" where
  "is_collection_of_items data =
     (case data of PList xs \<Rightarrow> list_all is_item xs | _ \<Rightarrow> False)"

text \<open>\<^verbatim>\<open>for key, actual in data_items\<close>: every item is unpacked into two names.\<close>

fun unpack_items :: "pyval list \<Rightarrow> error + (pyval \<times> pyval) list" where
  "unpack_items [] = Inr []"
| "unpack_items (PList [k, v] # rest) =
     (case unpack_items rest of Inl e \<Rightarrow> Inl e | Inr kvs \<Rightarrow> Inr ((k, v) # kvs))"
| "unpack_items (x # rest) = Inl (ValueError ''cannot unpack item into key and value'')"

text \<open>Lines 214 to 219.\<close>

definition data_items_of :: "pyval \<Rightarrow> error + (pyval \<times> pyval) list" where
  "data_items_of data =
     (if is_Mapping data then (case data of PDict kvs \<Rightarrow> Inr kvs | _ \<Rightarrow> Inr [])
      else
        ebind (load_global ''_is_collection_of_items'' is_collection_of_items) (\<lambda>test.
          if test data then ebind (py_iter data) unpack_items
          else Inl (TypeError ''data must be mapping or iterable of key-value items'')))"

text \<open>\<^verbatim>\<open>mapping.get(key, NOTFOUND)\<close>.\<close>

definition mapping_get :: "(pyval \<times> requirement) list \<Rightarrow> pyval \<Rightarrow> requirement" where
  "mapping_get mapping key =
     (case dict_get mapping key of None \<Rightarrow> Value NOTFOUND | Some expected \<Rightarrow> expected)"

text \<open>
  Lines 227 to 229 and 236 to 238: of the objects that \<^verbatim>\<open>_do_comparison\<close> returns only
  the iterator is a non-string iterable, and \<^verbatim>\<open>list(result)\<close> runs it to its end.
\<close>

definition materialize :: "report \<Rightarrow> error + report" where
  "materialize result =
     (case result of
        Lazy g \<Rightarrow> (case list_of_gen g of Inl e \<Rightarrow> Inl e | Inr ds \<Rightarrow> Inr (Materialized ds))
      | _ \<Rightarrow> Inr result)"

text \<open>\<^verbatim>\<open>if result:\<close> for what \<^verbatim>\<open>_do_comparison\<close> returned: only \<^verbatim>\<open>None\<close> is false.\<close>

fun truthy :: "report \<Rightarrow> bool" where
  "truthy NoDifference = False"
| "truthy r = True"

text \<open>
  The loop of lines 222 to 230 over the items of the data; \<open>k\<close> is what the generator does
  after it.
\<close>

fun data_loop ::
  "runtime \<Rightarrow> (pyval \<times> requirement) list \<Rightarrow> (pyval \<times> pyval) list \<Rightarrow>
   (pyval \<times> report) gen \<Rightarrow> (pyval \<times> report) gen" where
  "data_loop rt mapping [] k = k"
| "data_loop rt mapping ((key, actual) # rest) k =
     (if \<not> hashable key then Raise (TypeError ''unhashable type'')
      else
        (case do_comparison rt actual (mapping_get mapping key) of
           Inl e \<Rightarrow> Raise e
         | Inr result \<Rightarrow>
             (if truthy result then
                (case materialize result of
                   Inl e \<Rightarrow> Raise e
                 | Inr r \<Rightarrow> Yield (key, r) (data_loop rt mapping rest k))
              else data_loop rt mapping rest k)))"

text \<open>The loop of lines 233 to 239 over the items of the requirement.\<close>

fun mapping_loop ::
  "runtime \<Rightarrow> pyval list \<Rightarrow> (pyval \<times> requirement) list \<Rightarrow> (pyval \<times> report) gen" where
  "mapping_loop rt data_keys [] = Stop"
| "mapping_loop rt data_keys ((key, expected) # rest) =
     (if hkey key \<notin> hkey ` set data_keys then
        (case do_comparison rt NOTFOUND expected of
           Inl e \<Rightarrow> Raise e
         | Inr result \<Rightarrow>
             (case materialize result of
                Inl e \<Rightarrow> Raise e
              | Inr r \<Rightarrow> Yield (key, r) (mapping_loop rt data_keys rest)))
      else mapping_loop rt data_keys rest)"

definition compare_mapping ::
  "runtime \<Rightarrow> pyval \<Rightarrow> (pyval \<times> requirement) list \<Rightarrow> (pyval \<times> report) gen" where
  "compare_mapping rt data mapping =
     (case data_items_of data of
        Inl e \<Rightarrow> Raise e
      | Inr data_items \<Rightarrow>
          data_loop rt mapping data_items (mapping_loop rt (map fst data_items) mapping))"

text \<open>\<^verbatim>\<open>_do_mapping_comparison\<close>: the iterator with its first item put back, or \<^verbatim>\<open>None\<close>.\<close>

definition do_mapping_comparison ::
  "runtime \<Rightarrow> pyval \<Rightarrow> (pyval \<times> requirement) list \<Rightarrow> error + (pyval \<times> report) gen option" where
  "do_mapping_comparison rt data mapping =
     (case compare_mapping rt data mapping of
        Raise e \<Rightarrow> Inl e
      | Stop \<Rightarrow> Inr None
      | Yield first_element rest \<Rightarrow> Inr (Some (Yield first_element rest)))"

section \<open>The constructor of \<^verbatim>\<open>Deviation\<close>\<close>




section \<open>A runtime for the examples\<close>

text \<open>
  The renderings used where a statement below is evaluated on given objects: \<^verbatim>\<open>repr\<close> of
  \<^verbatim>\<open>None\<close>, of a boolean, of an integer and of a string of letters and digits, and the
  names of the builtin types. \<^verbatim>\<open>_get_error\<close> follows the spec's difference factory for
  objects that are not numbers.
\<close>

definition example_repr :: "pyval \<Rightarrow> string" where
  "example_repr v =
     (case v of
        PStr s \<Rightarrow> [CHR 0x27] @ s @ [CHR 0x27]
      | PInt i \<Rightarrow> (if i < 0 then ''-'' else []) @ str_nat (nat \<bar>i\<bar>)
      | PNone \<Rightarrow> ''None''
      | PBool b \<Rightarrow> (if b then ''True'' else ''False'')
      | NOTFOUND \<Rightarrow> ''NOTFOUND''
      | _ \<Rightarrow> ''<object>'')"

definition example_type_name :: "pyval \<Rightarrow> string" where
  "example_type_name v =
     (case v of
        PStr s \<Rightarrow> ''str''
      | PInt i \<Rightarrow> ''int''
      | PNone \<Rightarrow> ''NoneType''
      | PBool b \<Rightarrow> ''bool''
      | PNaN \<Rightarrow> ''float''
      | PList xs \<Rightarrow> ''list''
      | PSet xs \<Rightarrow> ''set''
      | PDict kvs \<Rightarrow> ''dict''
      | _ \<Rightarrow> ''object'')"

definition example_get_error :: "pyval \<Rightarrow> pyval \<Rightarrow> bool \<Rightarrow> difference" where
  "example_get_error actual expected omit_expected =
     (if actual = NOTFOUND then Missing expected
      else if expected = NOTFOUND then Extra actual
      else Invalid actual (if omit_expected then None else Some expected))"

definition example_runtime :: runtime where
  "example_runtime =
     \<lparr>rt_repr = example_repr, rt_type_name = example_type_name,
      rt_get_error = example_get_error\<rparr>"


section \<open>Set comparison\<close>







lemma hkey_eq_PStr: "hkey x = PStr s \<longleftrightarrow> x = PStr s"
  by (cases x) auto

lemma PStr_in_hkey_image: "PStr s \<in> hkey ` set xs \<longleftrightarrow> PStr s \<in> set xs"
proof
  assume "PStr s \<in> hkey ` set xs"
  then obtain x where "x \<in> set xs" "hkey x = PStr s" by auto
  then show "PStr s \<in> set xs" by (simp add: hkey_eq_PStr)
next
  assume "PStr s \<in> set xs"
  then have "hkey (PStr s) \<in> hkey ` set xs" by (rule imageI)
  then show "PStr s \<in> hkey ` set xs" by simp
qed

lemma set_difference_absent:
  "PStr s \<notin> set requirement_set \<Longrightarrow>
   set_difference requirement_set [] = filter (\<lambda>x. x \<noteq> PStr s) requirement_set"
  apply (induction requirement_set)
   apply (simp_all add: set_difference_def)
  apply blast
  done

text \<open>
  C10. A string given as data to \<^verbatim>\<open>_compare_set\<close> is one element: the comparison is that
  of the one-element list holding the string, the whole string is looked up in the
  requirement, and its characters are never looked at. The string \<^verbatim>\<open>'a'\<close> against the
  set of \<^verbatim>\<open>'a'\<close>, \<^verbatim>\<open>'b'\<close> and \<^verbatim>\<open>'c'\<close> gives \<^verbatim>\<open>Missing('b')\<close> and \<^verbatim>\<open>Missing('c')\<close> and no
  \<^verbatim>\<open>Extra\<close>.
\<close>

theorem compare_set_string:
  "compare_set (PStr s) requirement_set = compare_set (PList [PStr s]) requirement_set \<and>
   compare_set (PStr s) requirement_set =
     Inr (gen_of_list (map Missing (filter (\<lambda>x. x \<noteq> PStr s) requirement_set) @
                       (if PStr s \<in> set requirement_set then [] else [Extra (PStr s)]))) \<and>
   compare_set (PStr ''a'') [PStr ''a'', PStr ''b'', PStr ''c''] =
     Inr (Yield (Missing (PStr ''b'')) (Yield (Missing (PStr ''c'')) Stop))"
proof -
  have e: "set_elements (PStr s) = Inr [PStr s]"
    by (simp add: set_elements_def)
  have 1: "compare_set (PStr s) requirement_set = compare_set (PList [PStr s]) requirement_set"
    by (simp add: compare_set_def set_elements_def)
  have l: "set_loop requirement_set [] [] [PStr s] =
      Inr (if PStr s \<in> set requirement_set then ([PStr s], []) else ([], [PStr s]))"
    by (simp add: set_contains_def set_add_def PStr_in_hkey_image)
  have d1: "PStr s \<in> set requirement_set \<Longrightarrow>
      set_difference requirement_set [PStr s] = filter (\<lambda>x. x \<noteq> PStr s) requirement_set"
    by (simp add: set_difference_def hkey_eq_PStr)
  have 2: "compare_set (PStr s) requirement_set =
     Inr (gen_of_list (map Missing (filter (\<lambda>x. x \<noteq> PStr s) requirement_set) @
                       (if PStr s \<in> set requirement_set then [] else [Extra (PStr s)])))"
  proof (cases "PStr s \<in> set requirement_set")
    case True
    show ?thesis
      apply (simp only: compare_set_def e ebind_def sum.case l True if_True case_prod_conv
          Let_def d1 [OF True])
      apply (simp only: append_Nil2 list.map)
      done
  next
    case False
    show ?thesis
      apply (simp only: compare_set_def e ebind_def sum.case l False if_False case_prod_conv
          Let_def set_difference_absent [OF False])
      apply (simp only: list.map)
      done
  qed
  have 3: "compare_set (PStr ''a'') [PStr ''a'', PStr ''b'', PStr ''c''] =
     Inr (Yield (Missing (PStr ''b'')) (Yield (Missing (PStr ''c'')) Stop))"
    by code_simp
  from 1 2 3 show ?thesis by blast
qed

theorem compare_set_string_witness:
  "compare_set (PStr ''ab'') [PStr ''a'', PStr ''b''] =
     compare_set (PList [PStr ''ab'']) [PStr ''a'', PStr ''b''] \<and>
   compare_set (PStr ''ab'') [PStr ''a'', PStr ''b''] =
     Inr (gen_of_list [Missing (PStr ''a''), Missing (PStr ''b''), Extra (PStr ''ab'')])"
proof -
  note t = compare_set_string [of "''ab''" "[PStr ''a'', PStr ''b'']"]
  have a: "compare_set (PStr ''ab'') [PStr ''a'', PStr ''b''] =
      compare_set (PList [PStr ''ab'']) [PStr ''a'', PStr ''b'']"
    by (rule conjunct1 [OF t])
  have c: "compare_set (PStr ''ab'') [PStr ''a'', PStr ''b''] =
      Inr (gen_of_list [Missing (PStr ''a''), Missing (PStr ''b''), Extra (PStr ''ab'')])"
    using conjunct1 [OF conjunct2 [OF t]] by simp
  show ?thesis by (rule conjI) (rule a, rule c)
qed

section \<open>Constructing a \<^verbatim>\<open>Deviation\<close>\<close>




section \<open>Data that is no sequence\<close>

text \<open>
  C9, as stated, fails on the class of the exception: a string compared with a sequence
  raises \<^verbatim>\<open>ValueError\<close>, which is not a \<^verbatim>\<open>TypeError\<close> (\<^verbatim>\<open>test_comparison_error\<close> expects
  \<^verbatim>\<open>ValueError\<close> too).
\<close>

theorem compare_sequence_string_counterexample:
  "compare_sequence example_repr example_type_name (PStr ''abc'')
     [PStr ''a'', PStr ''b'', PStr ''c''] =
   Inl (ValueError ''uncomparable types: 'str' and sequence type'')"
  by code_simp

text \<open>
  C9, amended. When the data is a string, or is not a sequence at all, \<^verbatim>\<open>_compare_sequence\<close>
  raises \<^verbatim>\<open>ValueError\<close> and returns no report, and so does \<^verbatim>\<open>_do_comparison\<close> for every
  requirement that is a sequence.
\<close>

theorem compare_sequence_rejects_non_sequence:
  assumes "is_str data \<or> \<not> is_Sequence data"
  shows "(\<exists>msg. compare_sequence repr type_name data sequence = Inl (ValueError msg)) \<and>
         (\<exists>msg. do_comparison rt data (Value (PList sequence)) = Inl (ValueError msg))"
proof -
  have a: "\<exists>msg. compare_sequence repr type_name data sequence = Inl (ValueError msg)" for repr type_name
    using assms by (auto simp: compare_sequence_def)
  have b: "do_comparison rt data (Value (PList sequence)) =
      compare_sequence (rt_repr rt) (rt_type_name rt) data sequence"
    by (simp add: do_comparison_def)
  show ?thesis unfolding b by (rule conjI) (rule a, rule a)
qed

theorem compare_sequence_rejects_non_sequence_witness:
  "(\<exists>msg. compare_sequence example_repr example_type_name (PSet [PInt 1]) [PInt 1] =
      Inl (ValueError msg)) \<and>
   (\<exists>msg. do_comparison example_runtime (PSet [PInt 1]) (Value (PList [PInt 1])) =
      Inl (ValueError msg))"
proof -
  have h: "is_str (PSet [PInt 1]) \<or> \<not> is_Sequence (PSet [PInt 1])" by simp
  show ?thesis by (rule compare_sequence_rejects_non_sequence [OF h])
qed

section \<open>Mapping comparison\<close>

text \<open>
  C2. \<^verbatim>\<open>_compare_mapping\<close> tests data that is no mapping with \<^verbatim>\<open>_is_collection_of_items\<close>,
  a name that \<^verbatim>\<open>validate.py\<close> neither imports nor defines. For the set of \<^verbatim>\<open>'x'\<close> and
  \<^verbatim>\<open>'y'\<close> (the data of \<^verbatim>\<open>test_mapping_requirement\<close>) the generator raises \<^verbatim>\<open>NameError\<close>
  where line 219 would raise \<^verbatim>\<open>TypeError\<close>, \<^verbatim>\<open>_do_mapping_comparison\<close> raises it too, and
  a list of key-value pairs raises it as well instead of being compared.
\<close>

theorem compare_mapping_unbound_name:
  "compare_mapping example_runtime (PSet [PStr ''x'', PStr ''y''])
     [(PStr ''a'', Value (PStr ''x'')), (PStr ''b'', Value (PStr ''z''))] =
     Raise (NameError ''name '_is_collection_of_items' is not defined'') \<and>
   do_mapping_comparison example_runtime (PSet [PStr ''x'', PStr ''y''])
     [(PStr ''a'', Value (PStr ''x'')), (PStr ''b'', Value (PStr ''z''))] =
     Inl (NameError ''name '_is_collection_of_items' is not defined'') \<and>
   compare_mapping example_runtime (PList [PList [PStr ''a'', PStr ''x'']])
     [(PStr ''a'', Value (PStr ''x''))] =
     Raise (NameError ''name '_is_collection_of_items' is not defined'')"
  by code_simp

text \<open>The same holds for whatever is not a mapping.\<close>

lemma compare_mapping_not_mapping:
  "\<not> is_Mapping data \<Longrightarrow>
   compare_mapping rt data mapping =
     Raise (NameError ''name '_is_collection_of_items' is not defined'')"
  by (simp add: compare_mapping_def data_items_of_def load_global_def validate_globals_def
      ebind_def)

text \<open>
  C3. The loop over the items of the requirement (lines 233 to 239) yields its result
  without the test \<^verbatim>\<open>if result:\<close> that the loop over the data makes: a key that the data
  lacks is yielded with the report \<^verbatim>\<open>None\<close> when its requirement is the empty set, or a
  predicate that accepts the sentinel.
\<close>

theorem compare_mapping_yields_none_report:
  "compare_mapping example_runtime (PDict []) [(PStr ''b'', Value (PSet []))] =
     Yield (PStr ''b'', NoDifference) Stop \<and>
   compare_mapping example_runtime (PDict [(PStr ''a'', PStr ''x'')])
     [(PStr ''a'', Value (PStr ''x'')),
      (PStr ''b'', Callable ''anything'' (\<lambda>args. Returns (RetVal (PBool True))))] =
     Yield (PStr ''b'', NoDifference) Stop"
  by code_simp

text \<open>
  The other half of the claim holds on both loops: no report is yielded as an iterator
  that has still to be run.
\<close>

lemma materialize_not_lazy: "materialize result = Inr r \<Longrightarrow> r \<noteq> Lazy g"
  by (cases result) (auto simp: materialize_def split: sum.splits)

lemma mapping_loop_materialized:
  "(key, r) \<in> set (gen_items (mapping_loop rt data_keys mapping)) \<Longrightarrow> r \<noteq> Lazy g"
proof (induction mapping)
  case Nil
  then show ?case by simp
next
  case (Cons item mapping)
  obtain k expected where item: "item = (k, expected)" by (cases item)
  show ?case
    using Cons materialize_not_lazy
    by (auto simp: item split: if_splits sum.splits)
qed

lemma data_loop_materialized:
  "(key, r) \<in> set (gen_items (data_loop rt mapping data_items k)) \<Longrightarrow>
   (\<And>key r. (key, r) \<in> set (gen_items k) \<Longrightarrow> r \<noteq> Lazy g) \<Longrightarrow> r \<noteq> Lazy g"
proof (induction data_items)
  case Nil
  then show ?case by simp
next
  case (Cons item data_items)
  obtain k' actual where item: "item = (k', actual)" by (cases item)
  show ?case
    using Cons
    by (auto simp: item split: if_splits sum.splits dest: materialize_not_lazy [where g = g])
qed

lemma compare_mapping_materialized:
  "(key, r) \<in> set (gen_items (compare_mapping rt data mapping)) \<Longrightarrow> r \<noteq> Lazy g"
proof (cases "data_items_of data")
  case (Inl e)
  then show "(key, r) \<in> set (gen_items (compare_mapping rt data mapping)) \<Longrightarrow> r \<noteq> Lazy g"
    by (simp add: compare_mapping_def)
next
  case (Inr data_items)
  assume "(key, r) \<in> set (gen_items (compare_mapping rt data mapping))"
  then have "(key, r) \<in> set (gen_items (data_loop rt mapping data_items
      (mapping_loop rt (map fst data_items) mapping)))"
    by (simp add: compare_mapping_def Inr)
  then show "r \<noteq> Lazy g"
    by (rule data_loop_materialized) (rule mapping_loop_materialized)
qed

section \<open>The sentinel as data of a predicate or a pattern\<close>

text \<open>
  C4. \<^verbatim>\<open>_do_comparison\<close> puts data that is no iterable into a list before it calls
  \<^verbatim>\<open>_compare_callable\<close> or \<^verbatim>\<open>_compare_regex\<close>, so their test \<^verbatim>\<open>data is NOTFOUND\<close> is never
  true on that path: the predicate is called with the sentinel and the pattern searches
  the sentinel. A predicate that accepts \<^verbatim>\<open>None\<close> alone reports \<^verbatim>\<open>Invalid(NOTFOUND)\<close>
  through \<^verbatim>\<open>_do_comparison\<close> and nothing when \<^verbatim>\<open>_compare_callable\<close> is called with the
  sentinel; a pattern reports \<^verbatim>\<open>Invalid(NOTFOUND)\<close> against \<^verbatim>\<open>Invalid(None)\<close>.
\<close>

theorem do_comparison_passes_sentinel:
  "do_comparison example_runtime NOTFOUND
     (Callable ''is_none'' (\<lambda>args. Returns (RetVal (PBool (args = [PNone]))))) =
     Inr (Single (Invalid NOTFOUND None)) \<and>
   compare_callable example_repr NOTFOUND ''is_none''
     (\<lambda>args. Returns (RetVal (PBool (args = [PNone])))) = Stop \<and>
   do_comparison example_runtime NOTFOUND (Regex (\<lambda>s. True)) =
     Inr (Single (Invalid NOTFOUND None)) \<and>
   compare_regex NOTFOUND (\<lambda>s. True) = Yield (Invalid PNone None) Stop"
  by code_simp

theorem do_comparison_passes_sentinel_witness:
  "do_comparison example_runtime NOTFOUND
     (Callable ''is_none'' (\<lambda>args. Returns (RetVal (PBool (args = [PNone]))))) =
     Inr (Single (Invalid NOTFOUND None))"
  by (rule conjunct1 [OF do_comparison_passes_sentinel])

text \<open>
  Called with the sentinel itself, the two functions do compare the single element
  \<^verbatim>\<open>None\<close>.
\<close>

lemma sentinel_direct_call:
  "compare_callable repr NOTFOUND callable_name function =
     compare_callable repr (PList [PNone]) callable_name function \<and>
   compare_regex NOTFOUND regex = compare_regex (PList [PNone]) regex \<and>
   compare_regex NOTFOUND regex = Yield (Invalid PNone None) Stop"
  by (simp add: compare_callable_def compare_regex_def elements_or_none_def regex_search_def)

section \<open>Predicate comparison\<close>

text \<open>
  C6. For the element that \<^verbatim>\<open>_compare_callable\<close> takes up: when the predicate returns
  \<^verbatim>\<open>True\<close> nothing is yielded for it; when it returns \<^verbatim>\<open>False\<close>, or raises, \<^verbatim>\<open>Invalid(element)\<close>
  is yielded and the exception goes no further; a returned difference is yielded as it
  is; any other returned object makes the generator raise \<^verbatim>\<open>TypeError\<close> with a message
  that gives the name of the predicate and the object returned, and yields nothing for
  the element. In every case but the last the generator goes on with the remaining
  elements, which it treats in the same way.
\<close>

theorem compare_callable_outcomes:
  assumes el: "elements_or_none data = Inr (element # rest)"
  shows
    "(call_with function element = Returns (RetVal (PBool True)) \<longrightarrow>
        compare_callable repr data callable_name function =
          callable_loop repr callable_name function rest) \<and>
     (call_with function element = Returns (RetVal (PBool False)) \<longrightarrow>
        compare_callable repr data callable_name function =
          Yield (Invalid element None) (callable_loop repr callable_name function rest)) \<and>
     (\<forall>e. call_with function element = Raises e \<longrightarrow>
        compare_callable repr data callable_name function =
          Yield (Invalid element None) (callable_loop repr callable_name function rest)) \<and>
     (\<forall>d. call_with function element = Returns (RetDiff d) \<longrightarrow>
        compare_callable repr data callable_name function =
          Yield d (callable_loop repr callable_name function rest)) \<and>
     (\<forall>v. call_with function element = Returns (RetVal v) \<and> v \<noteq> PBool True \<and> v \<noteq> PBool False \<longrightarrow>
        compare_callable repr data callable_name function =
          Raise (TypeError (repr (PStr callable_name) @ '' returned '' @ repr v @
                            '', should return True, False or DataError''))) \<and>
     callable_loop repr callable_name function rest =
       compare_callable repr (PList rest) callable_name function"
proof -
  have c: "compare_callable repr data callable_name function =
      callable_loop repr callable_name function (element # rest)"
    by (simp add: compare_callable_def el)
  have 1: "call_with function element = Returns (RetVal (PBool True)) \<longrightarrow>
        compare_callable repr data callable_name function =
          callable_loop repr callable_name function rest"
    unfolding c by simp
  have 2: "call_with function element = Returns (RetVal (PBool False)) \<longrightarrow>
        compare_callable repr data callable_name function =
          Yield (Invalid element None) (callable_loop repr callable_name function rest)"
    unfolding c by simp
  have 3: "\<forall>e. call_with function element = Raises e \<longrightarrow>
        compare_callable repr data callable_name function =
          Yield (Invalid element None) (callable_loop repr callable_name function rest)"
    unfolding c by simp
  have 4: "\<forall>d. call_with function element = Returns (RetDiff d) \<longrightarrow>
        compare_callable repr data callable_name function =
          Yield d (callable_loop repr callable_name function rest)"
    unfolding c by simp
  have 5: "\<forall>v. call_with function element = Returns (RetVal v) \<and> v \<noteq> PBool True \<and> v \<noteq> PBool False \<longrightarrow>
        compare_callable repr data callable_name function =
          Raise (TypeError (repr (PStr callable_name) @ '' returned '' @ repr v @
                            '', should return True, False or DataError''))"
    unfolding c by (simp split: pyval.splits bool.splits)
  have 6: "callable_loop repr callable_name function rest =
       compare_callable repr (PList rest) callable_name function"
    by (simp add: compare_callable_def elements_or_none_def)
  show ?thesis by (intro conjI) (rule 1 2 3 4 5 6)+
qed

theorem compare_callable_outcomes_witness:
  "compare_callable example_repr (PList [PInt 1, PInt 2]) ''f''
     (\<lambda>args. if args = [PInt 1] then Raises (Exception ''no'') else Returns (RetVal PNone)) =
   Yield (Invalid (PInt 1) None)
     (Raise (TypeError '''f' returned None, should return True, False or DataError''))"
proof -
  let ?f = "\<lambda>args. if args = [PInt 1] then Raises (Exception ''no'') else Returns (RetVal PNone)"
  have e1: "elements_or_none (PList [PInt 1, PInt 2]) = Inr (PInt 1 # [PInt 2])"
    by (simp add: elements_or_none_def)
  have e2: "elements_or_none (PList [PInt 2]) = Inr (PInt 2 # [])"
    by (simp add: elements_or_none_def)
  have c1: "call_with ?f (PInt 1) = Raises (Exception ''no'')"
    by (simp add: call_with_def)
  have c2: "call_with ?f (PInt 2) = Returns (RetVal PNone) \<and> PNone \<noteq> PBool True \<and> PNone \<noteq> PBool False"
    by (simp add: call_with_def)
  note t1 = compare_callable_outcomes [OF e1, of ?f example_repr "''f''"]
  note t2 = compare_callable_outcomes [OF e2, of ?f example_repr "''f''"]
  have a: "compare_callable example_repr (PList [PInt 1, PInt 2]) ''f'' ?f =
      Yield (Invalid (PInt 1) None) (callable_loop example_repr ''f'' ?f [PInt 2])"
    using t1 c1 by blast
  have b: "callable_loop example_repr ''f'' ?f [PInt 2] =
      compare_callable example_repr (PList [PInt 2]) ''f'' ?f"
    using t1 by blast
  have c: "compare_callable example_repr (PList [PInt 2]) ''f'' ?f =
      Raise (TypeError (example_repr (PStr ''f'') @ '' returned '' @ example_repr PNone @
                            '', should return True, False or DataError''))"
    using t2 c2 by blast
  show ?thesis unfolding a b c by (simp add: example_repr_def)
qed

section \<open>Failures on single elements\<close>

lemma other_loop_items:
  "gen_error (other_loop get_error other xs) = None \<and>
   gen_items (other_loop get_error other xs) =
     map (\<lambda>e. get_error e other True) (filter (\<lambda>e. py_eq e other \<noteq> Inr True) xs)"
proof (induction xs)
  case Nil
  show ?case by simp
next
  case (Cons x xs)
  show ?case
  proof (cases "py_eq x other")
    case (Inl e)
    then show ?thesis using Cons by (simp add: py_ne_def del: py_eq.simps)
  next
    case (Inr b)
    then show ?thesis using Cons by (cases b) (simp_all add: py_ne_def del: py_eq.simps)
  qed
qed

lemma regex_search_cases:
  "(\<exists>b. regex_search regex e = Inr b) \<or> (\<exists>m. regex_search regex e = Inl (TypeError m))"
  by (cases e) (simp_all add: regex_search_def)

lemma regex_loop_items:
  "gen_error (regex_loop regex xs) = None \<and>
   gen_items (regex_loop regex xs) =
     map (\<lambda>e. Invalid e None) (filter (\<lambda>e. regex_search regex e \<noteq> Inr True) xs)"
proof (induction xs)
  case Nil
  show ?case by simp
next
  case (Cons x xs)
  from regex_search_cases [of regex x] show ?case
  proof (elim disjE exE)
    fix b assume "regex_search regex x = Inr b"
    then show ?thesis using Cons by (cases b) simp_all
  next
    fix m assume "regex_search regex x = Inl (TypeError m)"
    then show ?thesis using Cons by simp
  qed
qed

text \<open>
  C7. \<^verbatim>\<open>_compare_other\<close> and \<^verbatim>\<open>_compare_regex\<close> never raise while they go through the
  elements of the data. \<^verbatim>\<open>_compare_other\<close> yields, in the order of the data, the
  difference of every element for which \<^verbatim>\<open>==\<close> does not return true: so of every element
  whose \<^verbatim>\<open>==\<close> raises. \<^verbatim>\<open>_compare_regex\<close> yields \<^verbatim>\<open>Invalid(element)\<close> for every element in
  which the search finds nothing or on which it raises \<^verbatim>\<open>TypeError\<close>. The elements after
  such an element are treated all the same.
\<close>

theorem element_failures_become_differences:
  "(py_iter data = Inr elements \<longrightarrow>
      gen_error (compare_other get_error data other) = None \<and>
      gen_items (compare_other get_error data other) =
        map (\<lambda>e. get_error e other True) (filter (\<lambda>e. py_eq e other \<noteq> Inr True) elements) \<and>
      (\<forall>e\<in>set elements. isl (py_eq e other) \<longrightarrow>
         get_error e other True \<in> set (gen_items (compare_other get_error data other)))) \<and>
   (elements_or_none data = Inr elements \<longrightarrow>
      gen_error (compare_regex data regex) = None \<and>
      gen_items (compare_regex data regex) =
        map (\<lambda>e. Invalid e None) (filter (\<lambda>e. regex_search regex e \<noteq> Inr True) elements) \<and>
      (\<forall>e\<in>set elements. isl (regex_search regex e) \<longrightarrow>
         Invalid e None \<in> set (gen_items (compare_regex data regex))))"
proof (intro conjI impI)
  assume a: "py_iter data = Inr elements"
  then have c: "compare_other get_error data other = other_loop get_error other elements"
    by (simp add: compare_other_def)
  show "gen_error (compare_other get_error data other) = None"
    unfolding c by (rule conjunct1 [OF other_loop_items])
  show i: "gen_items (compare_other get_error data other) =
        map (\<lambda>e. get_error e other True) (filter (\<lambda>e. py_eq e other \<noteq> Inr True) elements)"
    unfolding c by (rule conjunct2 [OF other_loop_items])
  show "\<forall>e\<in>set elements. isl (py_eq e other) \<longrightarrow>
         get_error e other True \<in> set (gen_items (compare_other get_error data other))"
    unfolding i by (auto simp del: py_eq.simps)
next
  assume a: "elements_or_none data = Inr elements"
  then have c: "compare_regex data regex = regex_loop regex elements"
    by (simp add: compare_regex_def)
  show "gen_error (compare_regex data regex) = None"
    unfolding c by (rule conjunct1 [OF regex_loop_items])
  show i: "gen_items (compare_regex data regex) =
        map (\<lambda>e. Invalid e None) (filter (\<lambda>e. regex_search regex e \<noteq> Inr True) elements)"
    unfolding c by (rule conjunct2 [OF regex_loop_items])
  show "\<forall>e\<in>set elements. isl (regex_search regex e) \<longrightarrow>
         Invalid e None \<in> set (gen_items (compare_regex data regex))"
    unfolding i by auto
qed

theorem element_failures_become_differences_witness:
  "gen_error (compare_other example_get_error (PList [PInt 10, PBad ''betrayed'', PInt 10]) (PInt 10)) = None \<and>
   gen_items (compare_other example_get_error (PList [PInt 10, PBad ''betrayed'', PInt 10]) (PInt 10)) =
     [Invalid (PBad ''betrayed'') None] \<and>
   gen_error (compare_regex (PList [PStr ''a1'', PInt 30, PStr ''b2'']) (\<lambda>s. True)) = None \<and>
   gen_items (compare_regex (PList [PStr ''a1'', PInt 30, PStr ''b2'']) (\<lambda>s. True)) =
     [Invalid (PInt 30) None]"
proof -
  have p1: "py_iter (PList [PInt 10, PBad ''betrayed'', PInt 10]) = Inr [PInt 10, PBad ''betrayed'', PInt 10]"
    by simp
  have p2: "elements_or_none (PList [PStr ''a1'', PInt 30, PStr ''b2'']) = Inr [PStr ''a1'', PInt 30, PStr ''b2'']"
    by (simp add: elements_or_none_def)
  note t1 = element_failures_become_differences
    [of "PList [PInt 10, PBad ''betrayed'', PInt 10]" "[PInt 10, PBad ''betrayed'', PInt 10]"
        example_get_error "PInt 10" "\<lambda>s. True"]
  note t2 = element_failures_become_differences
    [of "PList [PStr ''a1'', PInt 30, PStr ''b2'']" "[PStr ''a1'', PInt 30, PStr ''b2'']"
        example_get_error "PInt 10" "\<lambda>s. True"]
  from t1 p1 have a: "gen_error (compare_other example_get_error (PList [PInt 10, PBad ''betrayed'', PInt 10]) (PInt 10)) = None"
    and b: "gen_items (compare_other example_get_error (PList [PInt 10, PBad ''betrayed'', PInt 10]) (PInt 10)) =
        map (\<lambda>e. example_get_error e (PInt 10) True) (filter (\<lambda>e. py_eq e (PInt 10) \<noteq> Inr True) [PInt 10, PBad ''betrayed'', PInt 10])"
    by blast+
  from t2 p2 have c: "gen_error (compare_regex (PList [PStr ''a1'', PInt 30, PStr ''b2'']) (\<lambda>s. True)) = None"
    and d: "gen_items (compare_regex (PList [PStr ''a1'', PInt 30, PStr ''b2'']) (\<lambda>s. True)) =
        map (\<lambda>e. Invalid e None) (filter (\<lambda>e. regex_search (\<lambda>s. True) e \<noteq> Inr True) [PStr ''a1'', PInt 30, PStr ''b2''])"
    by blast+
  have b': "map (\<lambda>e. example_get_error e (PInt 10) True) (filter (\<lambda>e. py_eq e (PInt 10) \<noteq> Inr True) [PInt 10, PBad ''betrayed'', PInt 10]) = [Invalid (PBad ''betrayed'') None]"
    by (simp add: example_get_error_def)
  have d': "map (\<lambda>e. Invalid e None) (filter (\<lambda>e. regex_search (\<lambda>s. True) e \<noteq> Inr True) [PStr ''a1'', PInt 30, PStr ''b2'']) = [Invalid (PInt 30) None]"
    by (simp add: regex_search_def)
  show ?thesis unfolding b d b' d' using a c by simp
qed

section \<open>Sequence comparison\<close>












end
